theory Spec2Isabelle
  imports Complex_Main
begin

section \<open>Values that cross the HTTP boundary\<close>

text \<open>
  A request body is what \<^verbatim>\<open>express.json()\<close> leaves in \<^verbatim>\<open>req.body\<close>: a JSON value, or
  nothing at all (\<^verbatim>\<open>undefined\<close>, modelled as \<open>None\<close>). JSON numbers are finite, so a
  rational stands for each of them; an object is its list of properties.
\<close>

datatype json =
    JNull
  | JBool bool
  | JNum rat
  | JStr string
  | JArr "json list"
  | JObj "(string \<times> json) list"

text \<open>Reading a property of the body; \<open>None\<close> is JavaScript's \<^verbatim>\<open>undefined\<close>.\<close>

fun field :: "string \<Rightarrow> json option \<Rightarrow> json option" where
  "field k (Some (JObj kvs)) = map_of kvs k"
| "field k _ = None"

type_synonym ident = string

datatype ServiceType = MEDICAL | HOUSE_HELP | BEAUTY | FITNESS | EDUCATION | OTHER

text \<open>The decoded token that \<^verbatim>\<open>authenticate\<close> stores in \<^verbatim>\<open>req.user\<close>.\<close>

record principal =
  user_id :: ident
  user_role :: string

section \<open>The persisted tables\<close>

text \<open>
  The rows of the tables \<^verbatim>\<open>service\<close> and \<^verbatim>\<open>availability\<close>, with the fields the
  controller writes (it names the owner of a service \<^verbatim>\<open>userId\<close>; the migration calls the
  column \<^verbatim>\<open>providerId\<close>). The times of an availability row are the strings of the
  request, stored as they came (the columns are \<^verbatim>\<open>TEXT\<close>).
\<close>

record service =
  service_id :: ident
  service_name :: string
  service_type :: ServiceType
  service_durationMinutes :: rat
  service_createdAt :: nat
  service_userId :: ident

record availability =
  availability_id :: ident
  serviceId :: ident
  dayOfWeek :: int
  startTime :: string
  endTime :: string

record store =
  services :: "service list"
  availabilities :: "availability list"

text \<open>
  The storage calls of the controller, on tables held as lists of rows; each call
  succeeds. A created row gets the identifier the storage layer generates for it, which
  the model takes as the argument \<open>newId\<close>.
\<close>

definition service_findFirst :: "store \<Rightarrow> ident \<Rightarrow> service option" where
  "service_findFirst st i = find (\<lambda>s. service_id s = i) (services st)"

definition availability_findMany :: "store \<Rightarrow> ident \<Rightarrow> int \<Rightarrow> availability list" where
  "availability_findMany st sid d =
     filter (\<lambda>a. serviceId a = sid \<and> dayOfWeek a = d) (availabilities st)"

definition availability_create :: "store \<Rightarrow> availability \<Rightarrow> store" where
  "availability_create st row = st\<lparr>availabilities := availabilities st @ [row]\<rparr>"

definition service_create :: "store \<Rightarrow> service \<Rightarrow> store" where
  "service_create st row = st\<lparr>services := services st @ [row]\<rparr>"

section \<open>Responses\<close>

text \<open>
  Every \<^verbatim>\<open>res.status(c).json(b)\<close> that a handler executes is recorded, in order. Express
  answers a request once: the client receives the first recorded response, and a later
  call reaches a response that is already sent.
\<close>

datatype payload =
    Error string
  | CreatedAvailability availability
  | CreatedService ident string ServiceType rat

record response =
  status :: nat
  json_body :: payload

section \<open>The middleware\<close>

text \<open>
  \<^verbatim>\<open>jwt.verify\<close> is the library's: the parameter \<open>verify\<close> gives the decoded principal of
  a token, or \<open>None\<close> where the library throws. A middleware returns \<open>Inl\<close> its response
  when it ends the request, and \<open>Inr\<close> the request's principal when it calls \<^verbatim>\<open>next()\<close>.
\<close>

definition startsWith :: "string \<Rightarrow> string \<Rightarrow> bool" where
  "startsWith s p = (take (length p) s = p)"

definition authenticate ::
  "(string \<Rightarrow> principal option) \<Rightarrow> string option \<Rightarrow> response + principal" where
  "authenticate verify authHeader =
     (case authHeader of
        None \<Rightarrow> Inl \<lparr>status = 401, json_body = Error ''Unauthorized''\<rparr>
      | Some h \<Rightarrow>
          if h = [] \<or> \<not> startsWith h ''Bearer ''
          then Inl \<lparr>status = 401, json_body = Error ''Unauthorized''\<rparr>
          else (case verify (drop 7 h) of
                  None \<Rightarrow> Inl \<lparr>status = 401, json_body = Error ''Invalid token''\<rparr>
                | Some decoded \<Rightarrow> Inr decoded))"

definition isService_Provider :: "principal option \<Rightarrow> response + unit" where
  "isService_Provider user =
     (if map_option user_role user \<noteq> Some ''SERVICE_PROVIDER''
      then Inl \<lparr>status = 403, json_body = Error ''Forbidden (wrong role)''\<rparr>
      else Inr ())"

section \<open>CreateService\<close>

text \<open>
  The schema \<^verbatim>\<open>ZodForCreateService\<close>, field by field. \<open>None\<close> is a validation failure
  (\<^verbatim>\<open>parse\<close> throws a \<^verbatim>\<open>ZodError\<close>).
\<close>

record service_data =
  data_name :: string
  data_type :: ServiceType
  data_durationMinutes :: rat

definition z_literal_Physiotherapy :: "json option \<Rightarrow> string option" where
  "z_literal_Physiotherapy v =
     (if v = Some (JStr ''Physiotherapy'') then Some ''Physiotherapy'' else None)"

definition z_enum_ServiceType :: "json option \<Rightarrow> ServiceType option" where
  "z_enum_ServiceType v =
     (case v of
        Some (JStr s) \<Rightarrow>
          map_of [(''MEDICAL'', MEDICAL), (''HOUSE_HELP'', HOUSE_HELP), (''BEAUTY'', BEAUTY),
                  (''FITNESS'', FITNESS), (''EDUCATION'', EDUCATION), (''OTHER'', OTHER)] s
      | _ \<Rightarrow> None)"

text \<open>\<^verbatim>\<open>val % 30\<close>: the remainder of JavaScript truncates the quotient towards zero.\<close>

definition js_rem30 :: "rat \<Rightarrow> rat" where
  "js_rem30 val =
     val - 30 * of_int (if val < 0 then \<lceil>val / 30\<rceil> else \<lfloor>val / 30\<rfloor>)"

definition isInteger :: "rat \<Rightarrow> bool" where
  "isInteger val = (of_int \<lfloor>val\<rfloor> = val)"

definition z_durationMinutes :: "json option \<Rightarrow> rat option" where
  "z_durationMinutes v =
     (case v of
        Some (JNum val) \<Rightarrow>
          if isInteger val \<and> 30 \<le> val \<and> val \<le> 120 \<and> js_rem30 val = 0
          then Some val else None
      | _ \<Rightarrow> None)"

definition ZodForCreateService_parse :: "json option \<Rightarrow> service_data option" where
  "ZodForCreateService_parse body =
     (case body of
        Some (JObj kvs) \<Rightarrow>
          (case (z_literal_Physiotherapy (field ''name'' body),
                 z_enum_ServiceType (field ''type'' body),
                 z_durationMinutes (field ''durationMinutes'' body)) of
             (Some n, Some t, Some d) \<Rightarrow>
               Some \<lparr>data_name = n, data_type = t, data_durationMinutes = d\<rparr>
           | _ \<Rightarrow> None)
      | _ \<Rightarrow> None)"

text \<open>
  The handler. Reading \<^verbatim>\<open>req.user.id\<close> throws when no principal is attached, and so does
  a failed \<^verbatim>\<open>parse\<close>; the \<^verbatim>\<open>catch\<close> clause answers both with status 500. The branch
  \<^verbatim>\<open>if (!data)\<close> is never taken, since \<^verbatim>\<open>parse\<close> returns an object or throws. \<open>now\<close> is
  \<^verbatim>\<open>new Date()\<close>.
\<close>

definition CreateService ::
  "ident \<Rightarrow> nat \<Rightarrow> store \<Rightarrow> principal option \<Rightarrow> json option \<Rightarrow> response list \<times> store" where
  "CreateService newId now st user body =
     (case user of
        None \<Rightarrow> ([\<lparr>status = 500, json_body = Error '' Internal server error''\<rparr>], st)
      | Some u \<Rightarrow>
          (case ZodForCreateService_parse body of
             None \<Rightarrow> ([\<lparr>status = 500, json_body = Error '' Internal server error''\<rparr>], st)
           | Some data \<Rightarrow>
               let createService =
                     \<lparr>service_id = newId,
                      service_name = data_name data,
                      service_type = data_type data,
                      service_durationMinutes = data_durationMinutes data,
                      service_createdAt = now,
                      service_userId = user_id u\<rparr>
               in ([\<lparr>status = 201,
                     json_body = CreatedService (service_id createService)
                                   (service_name createService) (service_type createService)
                                   (service_durationMinutes createService)\<rparr>],
                   service_create st createService)))"

section \<open>SetAvailability\<close>

text \<open>\<^verbatim>\<open>s.split(",")\<close>: the pieces of \<open>s\<close> between commas, never an empty array.\<close>

fun split_comma :: "string \<Rightarrow> string list" where
  "split_comma [] = [[]]"
| "split_comma (c # cs) =
     (if c = CHR '','' then [] # split_comma cs
      else (case split_comma cs of
              [] \<Rightarrow> [[c]]
            | w # ws \<Rightarrow> (c # w) # ws))"

text \<open>
  The overlap loop compares \<^verbatim>\<open>number(a)\<close> with \<^verbatim>\<open>number(b)\<close>, where \<open>a\<close> and \<open>b\<close> are
  strings and \<^verbatim>\<open>number\<close> is the factory imported from the validation library. The
  comparison is the parameter \<open>isLessThan\<close> of the loop: \<open>isLessThan a b\<close> is the outcome
  of the language's abstract relational comparison of \<^verbatim>\<open>number(a)\<close> with \<^verbatim>\<open>number(b)\<close>,
  which is true, false or undefined (\<open>None\<close>). The three operators the loop uses are
  defined from it as the language does.
\<close>

type_synonym comparison = "string \<Rightarrow> string \<Rightarrow> bool option"

definition js_lt :: "comparison \<Rightarrow> string \<Rightarrow> string \<Rightarrow> bool" where
  "js_lt isLessThan a b = (isLessThan a b = Some True)"

definition js_gt :: "comparison \<Rightarrow> string \<Rightarrow> string \<Rightarrow> bool" where
  "js_gt isLessThan a b = (isLessThan b a = Some True)"

definition js_le :: "comparison \<Rightarrow> string \<Rightarrow> string \<Rightarrow> bool" where
  "js_le isLessThan a b = (isLessThan b a = Some False)"

text \<open>
  The comparison the library gives: \<^verbatim>\<open>number(s)\<close> builds a schema object, whatever \<open>s\<close>
  is. Two objects are compared through their string forms, which are the same string, so
  that neither is less than the other.
\<close>

definition isLessThan_schema :: comparison where
  "isLessThan_schema a b = Some False"

text \<open>
  The callback of \<^verbatim>\<open>findslote.forEach\<close>, for one stored row: the responses it sends.
  Its \<^verbatim>\<open>return\<close> leaves the callback only. Both \<^verbatim>\<open>startSplitDate\<close> and \<^verbatim>\<open>endSplitDate\<close>
  are split from \<^verbatim>\<open>element.startTime\<close>.
\<close>

definition overlap_callback ::
  "comparison \<Rightarrow> string list \<Rightarrow> string list \<Rightarrow> availability \<Rightarrow> response list" where
  "overlap_callback isLessThan userStartingTime userEndingTime element =
     (let startSplitDate = split_comma (startTime element);
          endSplitDate = split_comma (startTime element)
      in if js_le isLessThan (hd startSplitDate) (hd userStartingTime) \<and>
            js_gt isLessThan (hd endSplitDate) (hd userStartingTime)
         then [\<lparr>status = 500, json_body = Error ''Overlapping availability''\<rparr>]
         else if js_lt isLessThan (hd userEndingTime) (hd startSplitDate)
         then [\<lparr>status = 500, json_body = Error ''Overlapping availability''\<rparr>]
         else [])"

definition overlap_loop ::
  "comparison \<Rightarrow> string list \<Rightarrow> string list \<Rightarrow> availability list \<Rightarrow> response list" where
  "overlap_loop isLessThan userStartingTime userEndingTime findslote =
     (if length findslote \<noteq> 0
      then concat (map (overlap_callback isLessThan userStartingTime userEndingTime) findslote)
      else [])"

text \<open>
  The schema \<^verbatim>\<open>zodForSetAvailability\<close>. Where \<^verbatim>\<open>ZodForCreateService\<close> holds schemas, built
  by calling the library's factories (\<^verbatim>\<open>z.number()\<close>, \<^verbatim>\<open>z.literal(..)\<close>), the shape of this
  one holds the factories \<^verbatim>\<open>number\<close> and \<^verbatim>\<open>string\<close> themselves, uncalled. A factory is no
  schema, and \<^verbatim>\<open>parse\<close> throws on every body; \<open>None\<close> is the throw.
\<close>

record window_body =
  body_dayOfWeek :: int
  body_startTime :: string
  body_endTime :: string

definition zodForSetAvailability_parse :: "json option \<Rightarrow> window_body option" where
  "zodForSetAvailability_parse body = None"

text \<open>
  The statements of the handler that follow the parse, for the fields \<open>b\<close> that a parse
  would have returned: the truthiness test, the lookup of the service, the overlap loop
  and the creation of the row.
\<close>

definition SetAvailability_parsed ::
  "comparison \<Rightarrow> ident \<Rightarrow> store \<Rightarrow> ident \<Rightarrow> window_body \<Rightarrow> response list \<times> store" where
  "SetAvailability_parsed isLessThan newId st serviceId_param b =
     (if body_startTime b = [] \<or> body_endTime b = [] \<or> body_dayOfWeek b = 0 \<or>
         serviceId_param = []
      then ([\<lparr>status = 400, json_body = Error ''Invalid input or time format''\<rparr>], st)
      else
        (case service_findFirst st serviceId_param of
           None \<Rightarrow> ([\<lparr>status = 500, json_body = Error ''Service not found''\<rparr>], st)
         | Some findService \<Rightarrow>
             let findslote = availability_findMany st serviceId_param (body_dayOfWeek b);
                 userStartingTime = split_comma (body_startTime b);
                 userEndingTime = split_comma (body_endTime b);
                 sent = overlap_loop isLessThan userStartingTime userEndingTime findslote;
                 createShedule =
                   \<lparr>availability_id = newId,
                    serviceId = serviceId_param,
                    dayOfWeek = body_dayOfWeek b,
                    startTime = body_startTime b,
                    endTime = body_endTime b\<rparr>
             in (sent @ [\<lparr>status = 201, json_body = CreatedAvailability createShedule\<rparr>],
                 availability_create st createShedule)))"

text \<open>
  The handler: \<^verbatim>\<open>req.params.serviceId\<close> and \<^verbatim>\<open>req.body\<close> come in; the throw of the parse
  is caught by the \<^verbatim>\<open>catch\<close> clause, which answers with status 500.
\<close>

definition SetAvailability ::
  "comparison \<Rightarrow> ident \<Rightarrow> store \<Rightarrow> ident \<Rightarrow> json option \<Rightarrow> response list \<times> store" where
  "SetAvailability isLessThan newId st serviceId_param body =
     (case zodForSetAvailability_parse body of
        None \<Rightarrow> ([\<lparr>status = 500, json_body = Error ''Internal server error''\<rparr>], st)
      | Some b \<Rightarrow> SetAvailability_parsed isLessThan newId st serviceId_param b)"

text \<open>
  The route \<^verbatim>\<open>POST /services/:serviceId/availability\<close>: \<^verbatim>\<open>authenticate\<close>, then
  \<^verbatim>\<open>isService_Provider\<close>, then the handler.
\<close>

record http_request =
  authorization :: "string option"
  route_serviceId :: ident
  route_body :: "json option"

definition post_availability ::
  "(string \<Rightarrow> principal option) \<Rightarrow> comparison \<Rightarrow> ident \<Rightarrow> store \<Rightarrow> http_request
     \<Rightarrow> response list \<times> store" where
  "post_availability verify isLessThan newId st rq =
     (case authenticate verify (authorization rq) of
        Inl r \<Rightarrow> ([r], st)
      | Inr user \<Rightarrow>
          (case isService_Provider (Some user) of
             Inl r \<Rightarrow> ([r], st)
           | Inr _ \<Rightarrow> SetAvailability isLessThan newId st (route_serviceId rq) (route_body rq)))"

text \<open>A sequence of calls of the handler, each with its new identifier, route and body.\<close>

fun SetAvailability_calls ::
  "comparison \<Rightarrow> store \<Rightarrow> (ident \<times> ident \<times> json option) list \<Rightarrow> store" where
  "SetAvailability_calls isLessThan st [] = st"
| "SetAvailability_calls isLessThan st ((newId, serviceId_param, body) # calls) =
     SetAvailability_calls isLessThan
       (snd (SetAvailability isLessThan newId st serviceId_param body)) calls"

section \<open>The invariant of the stored windows\<close>

text \<open>
  The specification's test of two ranges of minutes, \<^verbatim>\<open>start < other.end && other.start < end\<close>,
  and its invariant: no two stored windows of one service and one day overlap. How a
  stored time string reads as a minute of the day is the parameter \<open>minutes\<close> (\<open>None\<close>
  for a string that is no time); a row whose times do not read has no range.
\<close>

definition overlaps :: "nat \<times> nat \<Rightarrow> nat \<times> nat \<Rightarrow> bool" where
  "overlaps r other = (fst r < snd other \<and> fst other < snd r)"

definition range_of :: "(string \<Rightarrow> nat option) \<Rightarrow> availability \<Rightarrow> (nat \<times> nat) option" where
  "range_of minutes a =
     (case (minutes (startTime a), minutes (endTime a)) of
        (Some s, Some e) \<Rightarrow> Some (s, e)
      | _ \<Rightarrow> None)"

definition conflict :: "(string \<Rightarrow> nat option) \<Rightarrow> availability \<Rightarrow> availability \<Rightarrow> bool" where
  "conflict minutes a b =
     (serviceId a = serviceId b \<and> dayOfWeek a = dayOfWeek b \<and>
      (case (range_of minutes a, range_of minutes b) of
         (Some r, Some other) \<Rightarrow> overlaps r other
       | _ \<Rightarrow> False))"

fun non_overlapping :: "(string \<Rightarrow> nat option) \<Rightarrow> availability list \<Rightarrow> bool" where
  "non_overlapping minutes [] = True"
| "non_overlapping minutes (a # rows) =
     (list_all (\<lambda>b. \<not> conflict minutes a b) rows \<and> non_overlapping minutes rows)"

text \<open>The reading of \<open>HH:MM\<close>: two digits, a colon, two digits, the hour below 24.\<close>

definition digit :: "char \<Rightarrow> nat option" where
  "digit c = (if c \<in> set ''0123456789'' then Some (of_char c - 48) else None)"

definition HHMM :: "string \<Rightarrow> nat option" where
  "HHMM s =
     (case s of
        [h1, h2, c, m1, m2] \<Rightarrow>
          (case (digit h1, digit h2, digit m1, digit m2) of
             (Some a, Some b, Some x, Some y) \<Rightarrow>
               if c = CHR '':'' \<and> 10 * a + b < 24 \<and> 10 * x + y < 60
               then Some (60 * (10 * a + b) + (10 * x + y))
               else None
           | _ \<Rightarrow> None)
      | _ \<Rightarrow> None)"

section \<open>A service, its windows and requests\<close>

text \<open>
  The service \<open>s1\<close> of provider \<open>p1\<close>, a store that holds it, bodies of requests, and the
  response of the \<^verbatim>\<open>catch\<close> clause.
\<close>

definition physio :: service where
  "physio = \<lparr>service_id = ''s1'', service_name = ''Physiotherapy'', service_type = MEDICAL,
             service_durationMinutes = 30, service_createdAt = 0, service_userId = ''p1''\<rparr>"

definition window :: "ident \<Rightarrow> int \<Rightarrow> string \<Rightarrow> string \<Rightarrow> availability" where
  "window i d s e =
     \<lparr>availability_id = i, serviceId = ''s1'', dayOfWeek = d, startTime = s, endTime = e\<rparr>"

definition shop :: "availability list \<Rightarrow> store" where
  "shop ws = \<lparr>services = [physio], availabilities = ws\<rparr>"

definition body_json :: "int \<Rightarrow> string \<Rightarrow> string \<Rightarrow> json option" where
  "body_json d s e =
     Some (JObj [(''dayOfWeek'', JNum (of_int d)), (''startTime'', JStr s),
                 (''endTime'', JStr e)])"

definition internal_error :: response where
  "internal_error = \<lparr>status = 500, json_body = Error ''Internal server error''\<rparr>"

text \<open>The providers \<open>p1\<close> and \<open>p2\<close>, and the tokens that \<^verbatim>\<open>jwt.verify\<close> decodes to them.\<close>

definition p1 :: principal where
  "p1 = \<lparr>user_id = ''p1'', user_role = ''SERVICE_PROVIDER''\<rparr>"

definition p2 :: principal where
  "p2 = \<lparr>user_id = ''p2'', user_role = ''SERVICE_PROVIDER''\<rparr>"

definition verify_tokens :: "string \<Rightarrow> principal option" where
  "verify_tokens token =
     (if token = ''token-of-p1'' then Some p1
      else if token = ''token-of-p2'' then Some p2
      else None)"

text \<open>Two stores whose availability rows differ in the stored \<^verbatim>\<open>endTime\<close> at most.\<close>

definition differ_only_in_endTime :: "store \<Rightarrow> store \<Rightarrow> bool" where
  "differ_only_in_endTime st st' \<longleftrightarrow>
     services st = services st' \<and>
     map (\<lambda>a. a\<lparr>endTime := []\<rparr>) (availabilities st) =
     map (\<lambda>a. a\<lparr>endTime := []\<rparr>) (availabilities st')"

section \<open>Facts about the model\<close>

lemmas fixtures = physio_def window_def shop_def body_json_def internal_error_def

lemma split_comma_nonempty: "split_comma s \<noteq> []"
  by (induction s) (auto split: list.splits)

text \<open>
  The first test of the callback asks that \<^verbatim>\<open>number(startSplitDate[0])\<close> be at most
  \<^verbatim>\<open>number(userStartingTime[0])\<close> and that \<^verbatim>\<open>number(endSplitDate[0])\<close>, the same value,
  be greater than it. No comparison makes both true.
\<close>

lemma first_test_never_holds: "\<not> (js_le isLessThan a b \<and> js_gt isLessThan a b)"
  by (simp add: js_le_def js_gt_def)

text \<open>With the library's comparison the loop sends nothing.\<close>

lemma overlap_loop_schema: "overlap_loop isLessThan_schema us ue xs = []"
  by (simp add: overlap_loop_def overlap_callback_def js_lt_def js_le_def js_gt_def
      isLessThan_schema_def)

text \<open>Every request takes the \<^verbatim>\<open>catch\<close> clause: one response, and the store as it was.\<close>

lemma SetAvailability_throws:
  "SetAvailability isLessThan newId st sid body = ([internal_error], st)"
  by (simp add: SetAvailability_def zodForSetAvailability_parse_def internal_error_def)

lemma SetAvailability_calls_unchanged: "SetAvailability_calls isLessThan st calls = st"
  by (induction calls arbitrary: st) (auto simp: SetAvailability_throws)

subsection \<open>The stored end time\<close>

lemma overlap_callback_endTime:
  "overlap_callback isLessThan us ue (a\<lparr>endTime := e\<rparr>) = overlap_callback isLessThan us ue a"
  by (simp add: overlap_callback_def)

lemma overlap_loop_strip:
  "overlap_loop isLessThan us ue xs =
   overlap_loop isLessThan us ue (map (\<lambda>a. a\<lparr>endTime := []\<rparr>) xs)"
  by (simp add: overlap_loop_def comp_def overlap_callback_endTime)

lemma findMany_strip:
  "map (\<lambda>a. a\<lparr>endTime := []\<rparr>) (availability_findMany st sid d) =
   filter (\<lambda>a. serviceId a = sid \<and> dayOfWeek a = d)
     (map (\<lambda>a. a\<lparr>endTime := []\<rparr>) (availabilities st))"
  by (simp add: availability_findMany_def filter_map comp_def)

lemma overlap_loop_differ:
  assumes "differ_only_in_endTime st st'"
  shows "overlap_loop isLessThan us ue (availability_findMany st sid d) =
         overlap_loop isLessThan us ue (availability_findMany st' sid d)"
proof -
  have "map (\<lambda>a. a\<lparr>endTime := []\<rparr>) (availability_findMany st sid d) =
        map (\<lambda>a. a\<lparr>endTime := []\<rparr>) (availability_findMany st' sid d)"
    using assms by (simp add: findMany_strip differ_only_in_endTime_def)
  then show ?thesis
    using overlap_loop_strip [of isLessThan us ue "availability_findMany st sid d"]
          overlap_loop_strip [of isLessThan us ue "availability_findMany st' sid d"]
    by simp
qed

lemma SetAvailability_parsed_differ:
  assumes "differ_only_in_endTime st st'"
  shows "fst (SetAvailability_parsed isLessThan newId st sid b) =
         fst (SetAvailability_parsed isLessThan newId st' sid b)"
proof -
  have sv: "service_findFirst st i = service_findFirst st' i" for i
    using assms by (simp add: service_findFirst_def differ_only_in_endTime_def)
  show ?thesis
    using assms
    by (auto simp: SetAvailability_parsed_def Let_def sv overlap_loop_differ
        split: option.splits)
qed

text \<open>
  Claim C8. The overlap loop reads the stored \<^verbatim>\<open>startTime\<close> for both of its bounds and
  never the stored \<^verbatim>\<open>endTime\<close>: on two stores whose windows differ in their end times
  only, the loop sends the same responses for the same candidate, whatever the
  comparison is, and so do the statements of the handler after the parse, for every
  parsed body, and the handler itself, for every request.
\<close>

theorem endTime_never_read:
  assumes "differ_only_in_endTime st st'"
  shows "overlap_loop isLessThan us ue (availability_findMany st sid d) =
         overlap_loop isLessThan us ue (availability_findMany st' sid d) \<and>
         fst (SetAvailability_parsed isLessThan newId st sid' b) =
         fst (SetAvailability_parsed isLessThan newId st' sid' b) \<and>
         fst (SetAvailability isLessThan newId st sid' body) =
         fst (SetAvailability isLessThan newId st' sid' body)"
  using assms
  by (simp add: overlap_loop_differ SetAvailability_parsed_differ SetAvailability_throws)

text \<open>
  The stored window from 10:00 to 11:00 and the stored window from 10:00 to 07:30 give
  the candidate from 09:00 to 10:01 the same responses, from the loop and from the
  handler.
\<close>

theorem endTime_never_read_witness:
  "differ_only_in_endTime (shop [window ''a1'' 1 ''10:00'' ''11:00''])
                          (shop [window ''a1'' 1 ''10:00'' ''07:30'']) \<and>
   overlap_loop isLessThan_schema (split_comma ''09:00'') (split_comma ''10:01'')
     (availability_findMany (shop [window ''a1'' 1 ''10:00'' ''07:30'']) ''s1'' 1) = [] \<and>
   fst (SetAvailability isLessThan_schema ''a2'' (shop [window ''a1'' 1 ''10:00'' ''07:30''])
          ''s1'' (body_json 1 ''09:00'' ''10:01'')) = [internal_error]"
proof -
  have d: "differ_only_in_endTime (shop [window ''a1'' 1 ''10:00'' ''11:00''])
                                  (shop [window ''a1'' 1 ''10:00'' ''07:30''])"
    by (simp add: differ_only_in_endTime_def fixtures)
  have l: "overlap_loop isLessThan_schema (split_comma ''09:00'') (split_comma ''10:01'')
             (availability_findMany (shop [window ''a1'' 1 ''10:00'' ''11:00'']) ''s1'' 1) = []"
    by (simp add: fixtures availability_findMany_def overlap_loop_def overlap_callback_def
        js_lt_def js_le_def js_gt_def isLessThan_schema_def)
  have h: "fst (SetAvailability isLessThan_schema ''a2''
                  (shop [window ''a1'' 1 ''10:00'' ''11:00''])
                  ''s1'' (body_json 1 ''09:00'' ''10:01'')) = [internal_error]"
    by (simp add: SetAvailability_def zodForSetAvailability_parse_def internal_error_def)
  show ?thesis
    using d l h
      endTime_never_read [OF d, of isLessThan_schema "split_comma ''09:00''"
        "split_comma ''10:01''" "''s1''" 1 "''a2''" "''s1''"
        "\<lparr>body_dayOfWeek = 1, body_startTime = ''09:00'', body_endTime = ''10:01''\<rparr>"
        "body_json 1 ''09:00'' ''10:01''"]
    by simp
qed

subsection \<open>What the handler answers\<close>

text \<open>
  Claim C1. With the window 10:00 to 11:00 stored for the service and the day, the
  request for 09:00 to 10:00, which only touches it, is refused: the handler answers 500
  \<open>Internal server error\<close> and stores nothing. The request for 09:00 to 10:01, which
  overlaps it, gets the same answer, not an overlap conflict. The claim asks that the
  first be admitted and that the second, and no other, fail with an overlap conflict.
\<close>

theorem touching_window_refused:
  "SetAvailability isLessThan_schema ''a2'' (shop [window ''a1'' 1 ''10:00'' ''11:00''])
     ''s1'' (body_json 1 ''09:00'' ''10:00'') =
     ([internal_error], shop [window ''a1'' 1 ''10:00'' ''11:00'']) \<and>
   SetAvailability isLessThan_schema ''a2'' (shop [window ''a1'' 1 ''10:00'' ''11:00''])
     ''s1'' (body_json 1 ''09:00'' ''10:01'') =
     ([internal_error], shop [window ''a1'' 1 ''10:00'' ''11:00''])"
  by (simp add: SetAvailability_def zodForSetAvailability_parse_def internal_error_def)

text \<open>
  Claim C2. No call of the handler stores a row, so that the stored windows of a service
  and a day, once pairwise free of overlap, stay so in every state that a sequence of
  calls reaches, for every reading of the stored times as minutes and every comparison.
\<close>

theorem windows_stay_non_overlapping:
  assumes "non_overlapping minutes (availabilities st)"
  shows "non_overlapping minutes (availabilities (SetAvailability_calls isLessThan st calls))"
  using assms by (simp add: SetAvailability_calls_unchanged)

text \<open>
  From the touching windows 09:00 to 10:00 and 10:00 to 11:00, a request for the
  overlapping 09:30 to 10:30 and a repeated request for 10:00 to 11:00 leave the stored
  windows free of overlap.
\<close>

theorem windows_stay_non_overlapping_witness:
  "non_overlapping HHMM
     (availabilities (shop [window ''a1'' 1 ''09:00'' ''10:00'',
                            window ''a2'' 1 ''10:00'' ''11:00''])) \<and>
   non_overlapping HHMM
     (availabilities
        (SetAvailability_calls isLessThan_schema
           (shop [window ''a1'' 1 ''09:00'' ''10:00'', window ''a2'' 1 ''10:00'' ''11:00''])
           [(''a3'', ''s1'', body_json 1 ''09:30'' ''10:30''),
            (''a4'', ''s1'', body_json 1 ''10:00'' ''11:00'')]))"
proof -
  have h: "non_overlapping HHMM
             (availabilities (shop [window ''a1'' 1 ''09:00'' ''10:00'',
                                    window ''a2'' 1 ''10:00'' ''11:00'']))"
    by (simp add: fixtures conflict_def range_of_def overlaps_def HHMM_def digit_def)
  show ?thesis
    using h windows_stay_non_overlapping [OF h, of isLessThan_schema
        "[(''a3'', ''s1'', body_json 1 ''09:30'' ''10:30''),
          (''a4'', ''s1'', body_json 1 ''10:00'' ''11:00'')]"]
    by simp
qed


text \<open>
  Claim C4. The times of a request are never parsed. The request with the well-formed
  times 09:00 and 10:00 fails, and the request with the times \<open>abc\<close> and \<open>25:99\<close> fails
  in the same way, with status 500 and not with a validation failure of the 400 class.
  The claim asks for a failure exactly on a malformed time, and for a 400-class one.
\<close>

theorem well_formed_time_refused:
  "SetAvailability isLessThan_schema ''a1'' (shop []) ''s1'' (body_json 1 ''09:00'' ''10:00'') =
     ([internal_error], shop []) \<and>
   SetAvailability isLessThan_schema ''a1'' (shop []) ''s1'' (body_json 1 ''abc'' ''25:99'') =
     ([internal_error], shop [])"
  by (simp add: SetAvailability_def zodForSetAvailability_parse_def internal_error_def)

text \<open>
  Claim C5. Provider \<open>p2\<close> asks for a window on the service of provider \<open>p1\<close>. The
  middleware lets the request through, since it tests the role only, and the handler
  answers 500 \<open>Internal server error\<close>, as it answers the owner \<open>p1\<close>. No window is
  created, but the answer is not the 403 that the claim asks for.
\<close>

theorem other_provider_not_forbidden:
  "service_userId physio \<noteq> user_id p2 \<and>
   post_availability verify_tokens isLessThan_schema ''a1'' (shop [])
     \<lparr>authorization = Some ''Bearer token-of-p2'', route_serviceId = ''s1'',
      route_body = body_json 1 ''09:00'' ''10:00''\<rparr> = ([internal_error], shop []) \<and>
   post_availability verify_tokens isLessThan_schema ''a1'' (shop [])
     \<lparr>authorization = Some ''Bearer token-of-p1'', route_serviceId = ''s1'',
      route_body = body_json 1 ''09:00'' ''10:00''\<rparr> = ([internal_error], shop [])"
  by (simp add: fixtures post_availability_def authenticate_def startsWith_def
      isService_Provider_def verify_tokens_def p1_def p2_def SetAvailability_def
      zodForSetAvailability_parse_def)

text \<open>
  Claim C6. A request that names no existing service is answered with status 500 and
  \<open>Internal server error\<close>: the handler fails before it looks the service up. The claim
  asks for 404.
\<close>

theorem missing_service_status:
  "SetAvailability isLessThan_schema ''a1'' (shop []) ''s9'' (body_json 1 ''09:00'' ''10:00'') =
   ([\<lparr>status = 500, json_body = Error ''Internal server error''\<rparr>], shop [])"
  by (simp add: SetAvailability_def zodForSetAvailability_parse_def)



subsection \<open>What CreateService accepts\<close>

lemma floor_div_30: "\<lfloor>(of_int n :: rat) / 30\<rfloor> = n div 30"
  using floor_divide_of_int_eq [of n 30, where ?'a = rat] by simp

lemma js_rem30_of_int: "0 \<le> n \<Longrightarrow> js_rem30 (of_int n) = of_int (n mod 30)"
proof -
  assume n: "0 \<le> n"
  have "(of_int n :: rat) - 30 * of_int (n div 30) = of_int (n - 30 * (n div 30))"
    by simp
  also have "n - 30 * (n div 30) = n mod 30"
    by (simp add: minus_mult_div_eq_mod)
  finally have "(of_int n :: rat) - 30 * of_int (n div 30) = of_int (n mod 30)" .
  moreover have "\<not> (of_int n :: rat) < 0" using n by simp
  ultimately show ?thesis
    unfolding js_rem30_def floor_div_30 by (simp only: if_False)
qed

lemma z_durationMinutes_unfold:
  "z_durationMinutes d = Some val \<longleftrightarrow>
     d = Some (JNum val) \<and> isInteger val \<and> 30 \<le> val \<and> val \<le> 120 \<and> js_rem30 val = 0"
  by (cases d; (simp add: z_durationMinutes_def; fail)?;
      cases "the d"; simp add: z_durationMinutes_def; blast)

lemma isInteger_bounds:
  assumes i: "isInteger val" and lo: "30 \<le> val" and hi: "val \<le> 120"
  shows "\<exists>n::int. val = of_int n \<and> 30 \<le> n \<and> n \<le> 120"
proof -
  have v: "val = of_int \<lfloor>val\<rfloor>"
    using i unfolding isInteger_def by (rule sym)
  have "rat_of_int 30 \<le> of_int \<lfloor>val\<rfloor>" using lo v by simp
  then have n30: "30 \<le> \<lfloor>val\<rfloor>" by (simp only: of_int_le_iff)
  have "of_int \<lfloor>val\<rfloor> \<le> rat_of_int 120" using hi v by simp
  then have n120: "\<lfloor>val\<rfloor> \<le> 120" by (simp only: of_int_le_iff)
  show ?thesis using v n30 n120 by blast
qed

lemma duration_accepted_is_multiple:
  assumes "z_durationMinutes d = Some val"
  shows "\<exists>n::int. d = Some (JNum (of_int n)) \<and> val = of_int n \<and>
           30 \<le> n \<and> n \<le> 120 \<and> n mod 30 = 0"
proof -
  have d: "d = Some (JNum val)" and i: "isInteger val" and lo: "30 \<le> val"
    and hi: "val \<le> 120" and r: "js_rem30 val = 0"
    using assms unfolding z_durationMinutes_unfold by blast+
  from isInteger_bounds [OF i lo hi]
  obtain n :: int where v: "val = of_int n" and n30: "30 \<le> n" and n120: "n \<le> 120"
    by blast
  have "0 \<le> n" using n30 by simp
  then have "js_rem30 (of_int n) = of_int (n mod 30)"
    by (rule js_rem30_of_int)
  then have "rat_of_int (n mod 30) = 0" using r unfolding v by (rule trans [OF sym])
  then have m: "n mod 30 = 0" by (simp only: of_int_eq_0_iff)
  have d': "d = Some (JNum (of_int n))" using d unfolding v .
  show ?thesis
    by (intro exI [of _ n] conjI d' v n30 n120 m)
qed

lemma multiple_is_accepted:
  assumes d: "d = Some (JNum (of_int n))" and n30: "30 \<le> n" and n120: "n \<le> 120"
    and m: "n mod 30 = 0"
  shows "z_durationMinutes d = Some (of_int n)"
proof -
  have "0 \<le> n" using n30 by simp
  then have "js_rem30 (of_int n) = of_int (n mod 30)"
    by (rule js_rem30_of_int)
  then have r: "js_rem30 (of_int n) = 0" using m by simp
  have i: "isInteger (of_int n)" by (simp add: isInteger_def)
  have lo: "30 \<le> rat_of_int n" using n30 by simp
  have hi: "rat_of_int n \<le> 120" using n120 by simp
  show ?thesis
    unfolding z_durationMinutes_unfold by (intro conjI d r i lo hi)
qed

lemma other_duration_refused:
  assumes "\<not> (\<exists>n::int. d = Some (JNum (of_int n)) \<and> 30 \<le> n \<and> n \<le> 120 \<and> n mod 30 = 0)"
  shows "z_durationMinutes d = None"
proof (cases "z_durationMinutes d")
  case None
  then show ?thesis .
next
  case (Some val)
  from duration_accepted_is_multiple [OF Some] obtain n :: int where
    "d = Some (JNum (of_int n)) \<and> val = of_int n \<and> 30 \<le> n \<and> n \<le> 120 \<and> n mod 30 = 0" ..
  then have "\<exists>n::int. d = Some (JNum (of_int n)) \<and> 30 \<le> n \<and> n \<le> 120 \<and> n mod 30 = 0"
    by (intro exI [of _ n]) simp
  with assms show ?thesis by (rule notE)
qed

text \<open>
  Claim C9. For a body whose name and type pass the schema, CreateService answers 201
  and stores one service exactly when \<^verbatim>\<open>durationMinutes\<close> is an integer from 30 to 120
  that is a multiple of 30; for every other value, or none, no service is stored and the
  request is refused (the \<^verbatim>\<open>catch\<close> clause answers the failed validation with status
  500).
\<close>

theorem CreateService_durationMinutes:
  assumes name: "map_of kvs ''name'' = Some (JStr ''Physiotherapy'')"
      and type: "z_enum_ServiceType (map_of kvs ''type'') = Some t"
  shows "(\<forall>n::int. map_of kvs ''durationMinutes'' = Some (JNum (of_int n)) \<and>
                  30 \<le> n \<and> n \<le> 120 \<and> n mod 30 = 0 \<longrightarrow>
            CreateService newId now st (Some u) (Some (JObj kvs)) =
              ([\<lparr>status = 201,
                 json_body = CreatedService newId ''Physiotherapy'' t (of_int n)\<rparr>],
               st\<lparr>services := services st @
                    [\<lparr>service_id = newId, service_name = ''Physiotherapy'', service_type = t,
                      service_durationMinutes = of_int n, service_createdAt = now,
                      service_userId = user_id u\<rparr>]\<rparr>)) \<and>
         (\<not> (\<exists>n::int. map_of kvs ''durationMinutes'' = Some (JNum (of_int n)) \<and>
                  30 \<le> n \<and> n \<le> 120 \<and> n mod 30 = 0) \<longrightarrow>
            CreateService newId now st (Some u) (Some (JObj kvs)) =
              ([\<lparr>status = 500, json_body = Error '' Internal server error''\<rparr>], st))"
proof (intro conjI allI impI)
  fix n :: int
  assume a: "map_of kvs ''durationMinutes'' = Some (JNum (of_int n)) \<and>
             30 \<le> n \<and> n \<le> 120 \<and> n mod 30 = 0"
  have "z_durationMinutes (map_of kvs ''durationMinutes'') = Some (of_int n)"
    using a by (intro multiple_is_accepted) simp_all
  then show "CreateService newId now st (Some u) (Some (JObj kvs)) =
              ([\<lparr>status = 201,
                 json_body = CreatedService newId ''Physiotherapy'' t (of_int n)\<rparr>],
               st\<lparr>services := services st @
                    [\<lparr>service_id = newId, service_name = ''Physiotherapy'', service_type = t,
                      service_durationMinutes = of_int n, service_createdAt = now,
                      service_userId = user_id u\<rparr>]\<rparr>)"
    using name type
    by (simp add: CreateService_def ZodForCreateService_parse_def z_literal_Physiotherapy_def
        service_create_def)
next
  assume "\<not> (\<exists>n::int. map_of kvs ''durationMinutes'' = Some (JNum (of_int n)) \<and>
                  30 \<le> n \<and> n \<le> 120 \<and> n mod 30 = 0)"
  then have "z_durationMinutes (map_of kvs ''durationMinutes'') = None"
    by (rule other_duration_refused)
  then show "CreateService newId now st (Some u) (Some (JObj kvs)) =
              ([\<lparr>status = 500, json_body = Error '' Internal server error''\<rparr>], st)"
    by (simp add: CreateService_def ZodForCreateService_parse_def split: option.splits)
qed

text \<open>A duration of 60 is accepted and stored; a duration of 45 is refused.\<close>

theorem CreateService_durationMinutes_witness:
  "CreateService ''s2'' 7 (shop []) (Some p2)
     (Some (JObj [(''name'', JStr ''Physiotherapy''), (''type'', JStr ''FITNESS''),
                  (''durationMinutes'', JNum 60)])) =
     ([\<lparr>status = 201, json_body = CreatedService ''s2'' ''Physiotherapy'' FITNESS 60\<rparr>],
      \<lparr>services = [physio,
                   \<lparr>service_id = ''s2'', service_name = ''Physiotherapy'',
                    service_type = FITNESS, service_durationMinutes = 60,
                    service_createdAt = 7, service_userId = ''p2''\<rparr>],
       availabilities = []\<rparr>) \<and>
   CreateService ''s2'' 7 (shop []) (Some p2)
     (Some (JObj [(''name'', JStr ''Physiotherapy''), (''type'', JStr ''FITNESS''),
                  (''durationMinutes'', JNum 45)])) =
     ([\<lparr>status = 500, json_body = Error '' Internal server error''\<rparr>], shop [])"
proof -
  let ?ok = "[(''name'', JStr ''Physiotherapy''), (''type'', JStr ''FITNESS''),
              (''durationMinutes'', JNum 60)]"
  let ?bad = "[(''name'', JStr ''Physiotherapy''), (''type'', JStr ''FITNESS''),
               (''durationMinutes'', JNum 45)]"
  have n1: "map_of ?ok ''name'' = Some (JStr ''Physiotherapy'')" by simp
  have t1: "z_enum_ServiceType (map_of ?ok ''type'') = Some FITNESS"
    by (simp add: z_enum_ServiceType_def)
  have n2: "map_of ?bad ''name'' = Some (JStr ''Physiotherapy'')" by simp
  have t2: "z_enum_ServiceType (map_of ?bad ''type'') = Some FITNESS"
    by (simp add: z_enum_ServiceType_def)
  have d1: "map_of ?ok ''durationMinutes'' = Some (JNum (of_int 60)) \<and>
            (30::int) \<le> 60 \<and> (60::int) \<le> 120 \<and> (60::int) mod 30 = 0"
    by simp
  have d2: "\<not> (\<exists>n::int. map_of ?bad ''durationMinutes'' = Some (JNum (of_int n)) \<and>
                  30 \<le> n \<and> n \<le> 120 \<and> n mod 30 = 0)"
  proof (intro notI, elim exE conjE)
    fix n :: int
    assume a: "map_of ?bad ''durationMinutes'' = Some (JNum (of_int n))"
       and m: "n mod 30 = 0"
    have "map_of ?bad ''durationMinutes'' = Some (JNum (rat_of_int 45))" by simp
    with a have "rat_of_int n = rat_of_int 45" by simp
    then have "n = 45" by (simp only: of_int_eq_iff)
    with m show False by simp
  qed
  note accept = CreateService_durationMinutes [OF n1 t1, of "''s2''" 7 "shop []" p2]
  note refuse = CreateService_durationMinutes [OF n2 t2, of "''s2''" 7 "shop []" p2]
  have ok: "CreateService ''s2'' 7 (shop []) (Some p2) (Some (JObj ?ok)) =
              ([\<lparr>status = 201,
                 json_body = CreatedService ''s2'' ''Physiotherapy'' FITNESS (of_int 60)\<rparr>],
               (shop [])\<lparr>services := services (shop []) @
                    [\<lparr>service_id = ''s2'', service_name = ''Physiotherapy'',
                      service_type = FITNESS, service_durationMinutes = of_int 60,
                      service_createdAt = 7, service_userId = user_id p2\<rparr>]\<rparr>)"
    by (rule mp [OF spec [OF conjunct1 [OF accept]] d1])
  have bad: "CreateService ''s2'' 7 (shop []) (Some p2) (Some (JObj ?bad)) =
              ([\<lparr>status = 500, json_body = Error '' Internal server error''\<rparr>], shop [])"
    by (rule mp [OF conjunct2 [OF refuse] d2])
  show ?thesis
    using ok bad by (simp add: shop_def p2_def)
qed

text \<open>
  Claim C10. A body whose \<^verbatim>\<open>name\<close> is not the string \<open>Physiotherapy\<close> (or that has no
  name, or is no object) fails validation: CreateService stores nothing and answers with
  its error status, although a stored service name is an arbitrary string.
\<close>

theorem CreateService_name:
  assumes "field ''name'' body \<noteq> Some (JStr ''Physiotherapy'')"
  shows "CreateService newId now st user body =
           ([\<lparr>status = 500, json_body = Error '' Internal server error''\<rparr>], st)"
proof -
  have "ZodForCreateService_parse body = None"
    using assms
    by (auto simp: ZodForCreateService_parse_def z_literal_Physiotherapy_def
        split: option.splits json.splits)
  then show ?thesis
    by (simp add: CreateService_def split: option.splits)
qed

text \<open>A request for a service named \<open>Yoga\<close>, otherwise valid, stores nothing.\<close>

theorem CreateService_name_witness:
  "field ''name'' (Some (JObj [(''name'', JStr ''Yoga''), (''type'', JStr ''FITNESS''),
                               (''durationMinutes'', JNum 60)])) \<noteq>
     Some (JStr ''Physiotherapy'') \<and>
   CreateService ''s2'' 7 (shop []) (Some p2)
     (Some (JObj [(''name'', JStr ''Yoga''), (''type'', JStr ''FITNESS''),
                  (''durationMinutes'', JNum 60)])) =
     ([\<lparr>status = 500, json_body = Error '' Internal server error''\<rparr>], shop [])"
proof -
  let ?body = "Some (JObj [(''name'', JStr ''Yoga''), (''type'', JStr ''FITNESS''),
                           (''durationMinutes'', JNum 60)])"
  have h: "field ''name'' ?body \<noteq> Some (JStr ''Physiotherapy'')" by simp
  show ?thesis
    using h CreateService_name [OF h, of "''s2''" 7 "shop []" "Some p2"] by simp
qed

end
